theory Spec2Isabelle
  imports Main "HOL-Library.Char_ord" "HOL-Library.List_Lexorder"
begin

section \<open>Python values the code computes with\<close>

text \<open>
  A Python \<^verbatim>\<open>str\<close> is modelled as a \<^typ>\<open>string\<close>, one \<^typ>\<open>char\<close> per code point, which
  covers the code points below 256. \<^verbatim>\<open>s[:n]\<close> is \<^term>\<open>take n s\<close> and \<^verbatim>\<open>not s\<close>
  is \<^term>\<open>s = []\<close>. Strings compare as Python compares them, code point by code point,
  a proper prefix first.
\<close>

definition py_isspace :: "char \<Rightarrow> bool" where
  \<comment> \<open>the white space that \<^verbatim>\<open>str.strip()\<close> and \<^verbatim>\<open>int()\<close> remove, below code point 256\<close>
  "py_isspace c \<longleftrightarrow>
     (let n = (of_char c :: nat)
      in (9 \<le> n \<and> n \<le> 13) \<or> (28 \<le> n \<and> n \<le> 32) \<or> n = 133 \<or> n = 160)"

definition py_strip :: "string \<Rightarrow> string" where
  "py_strip s = rev (dropWhile py_isspace (rev (dropWhile py_isspace s)))"

definition ascii_digit :: "char \<Rightarrow> bool" where
  "ascii_digit c \<longleftrightarrow> CHR ''0'' \<le> c \<and> c \<le> CHR ''9''"

definition py_isdigit_char :: "char \<Rightarrow> bool" where
  \<comment> \<open>the decimal digits and the superscripts two, three and one (U+00B2, U+00B3, U+00B9)\<close>
  "py_isdigit_char c \<longleftrightarrow>
     ascii_digit c \<or> (of_char c :: nat) = 178 \<or> (of_char c :: nat) = 179
       \<or> (of_char c :: nat) = 185"

definition py_isdigit :: "string \<Rightarrow> bool" where
  \<comment> \<open>\<^verbatim>\<open>str.isdigit()\<close>: at least one character, all of them digits\<close>
  "py_isdigit s \<longleftrightarrow> s \<noteq> [] \<and> list_all py_isdigit_char s"

definition digit_val :: "char \<Rightarrow> int" where
  "digit_val c = int (of_char c) - 48"

fun int_digits :: "int \<Rightarrow> bool \<Rightarrow> string \<Rightarrow> int option" where
  \<comment> \<open>the digits of a decimal literal after its sign: the value so far, whether the
      previous character was a digit, the rest; one underscore may stand between digits\<close>
  "int_digits acc after_digit [] = (if after_digit then Some acc else None)"
| "int_digits acc after_digit (c # cs) =
     (if ascii_digit c then int_digits (10 * acc + digit_val c) True cs
      else if c = CHR ''_'' \<and> after_digit then
        (case cs of
           [] \<Rightarrow> None
         | d # _ \<Rightarrow> if ascii_digit d then int_digits acc False cs else None)
      else None)"

definition py_int :: "string \<Rightarrow> int option" where
  \<comment> \<open>\<^verbatim>\<open>int(s)\<close> in base ten; \<^term>\<open>None\<close> is ValueError. Interpreters that cap the
      number of digits of a literal (4300 by default) raise ValueError beyond the cap\<close>
  "py_int s =
     (case py_strip s of
        [] \<Rightarrow> None
      | c # cs \<Rightarrow>
          if c = CHR ''-'' then map_option uminus (int_digits 0 False cs)
          else if c = CHR ''+'' then int_digits 0 False cs
          else int_digits 0 False (c # cs))"

definition py_lower_char :: "char \<Rightarrow> char" where
  \<comment> \<open>\<^verbatim>\<open>str.lower()\<close> below code point 256: A to Z, and U+00C0 to U+00DE without U+00D7\<close>
  "py_lower_char c =
     (let n = (of_char c :: nat)
      in if (65 \<le> n \<and> n \<le> 90) \<or> (192 \<le> n \<and> n \<le> 222 \<and> n \<noteq> 215)
         then char_of (n + 32) else c)"

definition py_lower :: "string \<Rightarrow> string" where
  "py_lower s = map py_lower_char s"

text \<open>
  A value that \<^verbatim>\<open>json.loads\<close> returns. A float keeps the text of its \<^verbatim>\<open>repr\<close>, which
  always holds a point, an exponent or the name of a special value. A \<^verbatim>\<open>dict\<close> is an
  association list in insertion order, looked up with \<^const>\<open>map_of\<close>.
\<close>

datatype json =
    JNull
  | JBool bool
  | JInt int
  | JFloat string
  | JStr string
  | JList "json list"
  | JDict "(string \<times> json) list"

definition dict_get :: "(string \<times> json) list \<Rightarrow> string \<Rightarrow> json \<Rightarrow> json" where
  \<comment> \<open>\<^verbatim>\<open>d.get(k, default)\<close>\<close>
  "dict_get d k dflt = (case map_of d k of Some v \<Rightarrow> v | None \<Rightarrow> dflt)"

definition dict_has :: "(string \<times> json) list \<Rightarrow> string \<Rightarrow> bool" where
  \<comment> \<open>\<^verbatim>\<open>k in d\<close>\<close>
  "dict_has d k \<longleftrightarrow> map_of d k \<noteq> None"

definition str_isdigit :: "json \<Rightarrow> bool" where
  \<comment> \<open>\<^verbatim>\<open>str(v).isdigit()\<close>: the text of an integer is all digits when it has no sign;
      the text of None, of a bool, a float, a list or a dict never is\<close>
  "str_isdigit v =
     (case v of JStr s \<Rightarrow> py_isdigit s | JInt n \<Rightarrow> 0 \<le> n | _ \<Rightarrow> False)"

definition int_of_json :: "json \<Rightarrow> int option" where
  \<comment> \<open>\<^verbatim>\<open>int(v)\<close> for the values on which \<^const>\<open>str_isdigit\<close> holds; \<^term>\<open>None\<close> is
      ValueError or TypeError\<close>
  "int_of_json v = (case v of JStr s \<Rightarrow> py_int s | JInt n \<Rightarrow> Some n | _ \<Rightarrow> None)"

section \<open>The libraries and the network\<close>

text \<open>
  What the code takes from outside the repository is a field of the environment:
  \<^verbatim>\<open>urlparse\<close> (the scheme and the \<^verbatim>\<open>hostname\<close> of the parsed URL), \<^verbatim>\<open>urljoin\<close>,
  \<^verbatim>\<open>ipaddress.ip_address\<close>, \<^verbatim>\<open>socket.getaddrinfo\<close>, \<^verbatim>\<open>requests.get\<close> with
  \<^verbatim>\<open>allow_redirects=False\<close>, \<^verbatim>\<open>json.loads\<close> and \<^verbatim>\<open>json.dumps\<close>, \<^verbatim>\<open>hashlib.md5\<close>, and
  werkzeug's \<^verbatim>\<open>generate_password_hash\<close> (with the salt it draws) and
  \<^verbatim>\<open>check_password_hash\<close>; and from SQLite the text it stores for a float in a TEXT
  column (\<^term>\<open>None\<close> for NaN, which it stores as NULL). A call that raises returns \<^term>\<open>None\<close>, or \<^term>\<open>Inl\<close> with the
  text of the exception where the code prints it. Every definition below takes the
  environment as its first argument, and every theorem holds for all environments unless
  it names the hypothesis it makes about one.
\<close>

record ipaddr =
  ip_str :: string
  is_loopback :: bool
  is_private :: bool
  is_link_local :: bool
  is_unspecified :: bool
  is_multicast :: bool
  is_reserved :: bool

datatype family = AF_INET | AF_INET6 | AF_OTHER

record http_response =
  status_code :: int
  location :: "string option"
  url :: string
  resp_text :: string

record env =
  urlparse :: "string \<Rightarrow> (string \<times> string option) option"
  urljoin :: "string \<Rightarrow> string \<Rightarrow> string + string"
  ip_address :: "string \<Rightarrow> ipaddr option"
  getaddrinfo :: "string \<Rightarrow> (family \<times> string) list option"
  requests_get :: "string \<Rightarrow> string + http_response"
  json_loads :: "string \<Rightarrow> json option"
  json_dumps :: "json \<Rightarrow> string"
  md5_hexdigest :: "string \<Rightarrow> string"
  generate_password_hash :: "string \<Rightarrow> string \<Rightarrow> string"
  check_password_hash :: "string \<Rightarrow> string \<Rightarrow> bool"
  sqlite_real_text :: "string \<Rightarrow> string option"

section \<open>The URL guard and the settings codec (security.py)\<close>

definition MAX_DESCRIPTION_LEN :: nat where
  "MAX_DESCRIPTION_LEN = 2000"

text \<open>
  \<^verbatim>\<open>load_artwork_settings\<close> is called with what the store returns, a string or None, and
  passes a dict or a list through. Its result is a Python value: \<^term>\<open>JNull\<close> is None.
  Every value of \<^typ>\<open>json\<close> passes the \<^verbatim>\<open>isinstance\<close> test on the parsed object, so a
  string that parses is returned as parsed.
\<close>

datatype settings_input =
    SNone
  | SText string
  | SDict "(string \<times> json) list"
  | SList "json list"

definition load_artwork_settings :: "env \<Rightarrow> settings_input \<Rightarrow> json" where
  "load_artwork_settings e settings_data =
     (case settings_data of
        SNone \<Rightarrow> JNull
      | SDict kvs \<Rightarrow> (if kvs = [] then JNull else JDict kvs)
      | SList vs \<Rightarrow> (if vs = [] then JNull else JList vs)
      | SText s \<Rightarrow>
          if s = [] then JNull
          else (case json_loads e s of
                  Some obj \<Rightarrow> obj
                | None \<Rightarrow> JDict [(''description'', JStr (take MAX_DESCRIPTION_LEN s))]))"

definition save_artwork_description :: "string \<Rightarrow> string option" where
  "save_artwork_description description =
     (if description = [] then None else Some (take MAX_DESCRIPTION_LEN description))"

definition is_public_ip :: "ipaddr \<Rightarrow> bool" where
  "is_public_ip ip \<longleftrightarrow>
     \<not> (is_loopback ip \<or> is_private ip \<or> is_link_local ip \<or> is_unspecified ip
        \<or> is_multicast ip \<or> is_reserved ip)"

fun collect_addrs :: "(family \<times> string) list \<Rightarrow> string list" where
  \<comment> \<open>the loop that fills the set \<^verbatim>\<open>addrs\<close>: the address of every IPv4 and IPv6 answer\<close>
  "collect_addrs [] = []"
| "collect_addrs ((fam, a) # rest) =
     (if fam = AF_INET then a # collect_addrs rest
      else if fam = AF_INET6 then a # collect_addrs rest
      else collect_addrs rest)"

fun check_addrs :: "env \<Rightarrow> string list \<Rightarrow> bool" where
  \<comment> \<open>the loop over \<^verbatim>\<open>addrs\<close>: it stops at the first address that is not public, and an
      address that does not parse raises into the outer handler; both answer 403\<close>
  "check_addrs e [] = True"
| "check_addrs e (ip_s # rest) =
     (case ip_address e ip_s of
        None \<Rightarrow> False
      | Some ip \<Rightarrow> if \<not> is_public_ip ip then False else check_addrs e rest)"

definition is_safe_url :: "env \<Rightarrow> string \<Rightarrow> bool \<times> string" where
  "is_safe_url e u =
     (case urlparse e u of
        None \<Rightarrow> (False, ''403'')
      | Some (scheme, host) \<Rightarrow>
          if scheme \<noteq> ''http'' \<and> scheme \<noteq> ''https'' then (False, ''403'')
          else
            (case host of
               None \<Rightarrow> (False, ''403'')
             | Some hostname \<Rightarrow>
                 if hostname = [] then (False, ''403'')
                 else if py_lower hostname = ''localhost''
                       \<or> py_lower hostname = ''localhost.localdomain'' then (False, ''403'')
                 else
                   (case ip_address e hostname of
                      Some ip \<Rightarrow>
                        if \<not> is_public_ip ip then (False, ''403'') else (True, ip_str ip)
                    | None \<Rightarrow>
                        (case getaddrinfo e hostname of
                           None \<Rightarrow> (False, ''403'')
                         | Some answers \<Rightarrow>
                             let addrs = remdups (collect_addrs answers) in
                             if addrs = [] then (False, ''403'')
                             else if \<not> check_addrs e addrs then (False, ''403'')
                             else (True, hd (sort addrs))))))"

section \<open>The relational store (db.py)\<close>

text \<open>
  The tables of \<^verbatim>\<open>init_db\<close>, one record per row and one list per table, in insertion
  order. A query \<^verbatim>\<open>SELECT ... WHERE p\<close> followed by \<^verbatim>\<open>fetchone()\<close> is the first row
  that satisfies \<open>p\<close>; \<^verbatim>\<open>UPDATE ... WHERE p\<close> rewrites every row that satisfies \<open>p\<close>;
  \<^verbatim>\<open>INSERT\<close> appends a row whose id is one more than the table's AUTOINCREMENT counter.
  Integers are Python's and are taken to stay inside SQLite's 64-bit range; strings are
  lists of characters; \<^verbatim>\<open>datetime('now')\<close> is the clock value the caller passes in.
  Foreign keys are declared in the schema but the connection never switches their
  enforcement on, so nothing in the model ties \<open>owner_id\<close> to a row of \<open>users\<close>.
\<close>

record user_row =
  uid :: int
  username :: string
  password :: string
  balance :: int
  user_created_at :: string

record artwork_row =
  aid :: int
  title :: string
  data :: string
  price :: int
  owner_id :: int
  is_private :: int
  signature :: string
  created_at :: string

record transaction_row =
  tid :: int
  buyer_id :: int
  seller_id :: int
  artwork_id :: int
  amount :: int
  tx_created_at :: string

record settings_row =
  sid :: int
  settings_artwork_id :: int
  settings_data :: string
  settings_created_at :: string

record db =
  users :: "user_row list"
  artworks :: "artwork_row list"
  transactions :: "transaction_row list"
  artwork_settings :: "settings_row list"
  users_seq :: int
  artworks_seq :: int
  transactions_seq :: int
  artwork_settings_seq :: int

definition fetchone :: "('r \<Rightarrow> bool) \<Rightarrow> 'r list \<Rightarrow> 'r option" where
  "fetchone p rows = find p rows"

definition update_where :: "('r \<Rightarrow> bool) \<Rightarrow> ('r \<Rightarrow> 'r) \<Rightarrow> 'r list \<Rightarrow> 'r list" where
  "update_where p f rows = map (\<lambda>r. if p r then f r else r) rows"

definition get_user_balance :: "db \<Rightarrow> int \<Rightarrow> int" where
  "get_user_balance d user_id =
     (case fetchone (\<lambda>u. uid u = user_id) (users d) of
        Some u \<Rightarrow> balance u
      | None \<Rightarrow> 0)"



text \<open>
  What SQLite does with a parameter. An integer outside the 64-bit range raises
  OverflowError when it is bound; a list or a dict cannot be bound; a value bound to the
  TEXT column \<open>title\<close> is stored as text, and None is refused there by NOT NULL. A call
  that raises closes its connection before the commit, so the store keeps what it had.
\<close>

datatype py_exception = OverflowError | InterfaceError | IntegrityError

definition sqlite_int_ok :: "int \<Rightarrow> bool" where
  "sqlite_int_ok n \<longleftrightarrow> - (2 ^ 63) \<le> n \<and> n < 2 ^ 63"

function decimal_nat :: "nat \<Rightarrow> string" where
  "decimal_nat n =
     (if n < 10 then [char_of (48 + n)]
      else decimal_nat (n div 10) @ [char_of (48 + n mod 10)])"
  by pat_completeness auto
termination
  by (relation "measure id") auto

declare decimal_nat.simps [simp del]

definition decimal :: "int \<Rightarrow> string" where
  "decimal n = (if n < 0 then CHR ''-'' # decimal_nat (nat (- n)) else decimal_nat (nat n))"

definition bind_param :: "json \<Rightarrow> py_exception option" where
  \<comment> \<open>the error of binding one parameter, if there is one\<close>
  "bind_param v =
     (case v of
        JList _ \<Rightarrow> Some InterfaceError
      | JDict _ \<Rightarrow> Some InterfaceError
      | JInt n \<Rightarrow> if sqlite_int_ok n then None else Some OverflowError
      | _ \<Rightarrow> None)"

definition text_column :: "env \<Rightarrow> json \<Rightarrow> string option" where
  \<comment> \<open>what a TEXT column holds for a bound value; \<^term>\<open>None\<close> is NULL\<close>
  "text_column e v =
     (case v of
        JStr s \<Rightarrow> Some s
      | JInt n \<Rightarrow> Some (decimal n)
      | JBool b \<Rightarrow> Some (if b then ''1'' else ''0'')
      | JFloat r \<Rightarrow> sqlite_real_text e r
      | _ \<Rightarrow> None)"

definition is_current_scheme :: "string \<Rightarrow> bool" where
  \<comment> \<open>\<^verbatim>\<open>stored and ":" in stored\<close>\<close>
  "is_current_scheme stored \<longleftrightarrow> stored \<noteq> [] \<and> CHR '':'' \<in> set stored"

text \<open>
  \<^verbatim>\<open>authenticate_user\<close> returns the dict of \<open>id\<close>, \<open>username\<close> and \<open>balance\<close>, or None; the
  model returns the store as well, and takes the salt that \<^verbatim>\<open>generate_password_hash\<close>
  would draw.
\<close>

definition authenticate_user ::
  "env \<Rightarrow> db \<Rightarrow> string \<Rightarrow> string \<Rightarrow> string \<Rightarrow> (int \<times> string \<times> int) option \<times> db" where
  "authenticate_user e d salt uname pw =
     (case fetchone (\<lambda>u. username u = uname) (users d) of
        None \<Rightarrow> (None, d)
      | Some user \<Rightarrow>
          let stored = password user in
          if is_current_scheme stored then
            (if check_password_hash e stored pw
             then (Some (uid user, username user, balance user), d)
             else (None, d))
          else
            (if stored = md5_hexdigest e pw then
               let new_hash = generate_password_hash e salt pw;
                   d' = d\<lparr>users := update_where (\<lambda>u. uid u = uid user)
                                      (\<lambda>u. u\<lparr>password := new_hash\<rparr>) (users d)\<rparr>
               in (Some (uid user, username user, balance user), d')
             else (None, d)))"

definition user_exists :: "db \<Rightarrow> string \<Rightarrow> bool" where
  "user_exists d uname \<longleftrightarrow> fetchone (\<lambda>u. username u = uname) (users d) \<noteq> None"

definition create_artwork_record ::
  "env \<Rightarrow> db \<Rightarrow> string \<Rightarrow> int \<Rightarrow> json \<Rightarrow> string \<Rightarrow> int \<Rightarrow> int \<Rightarrow> string
     \<Rightarrow> string option \<Rightarrow> string option \<Rightarrow> py_exception + (int \<times> db)" where
  "create_artwork_record e d now owner ttl dat pr priv sig settings created =
     (case bind_param ttl of
        Some ex \<Rightarrow> Inl ex
      | None \<Rightarrow>
          if \<not> (sqlite_int_ok pr \<and> sqlite_int_ok owner \<and> sqlite_int_ok priv)
          then Inl OverflowError
          else
            (case text_column e ttl of
               None \<Rightarrow> Inl IntegrityError
             | Some t \<Rightarrow>
                 let new_id = artworks_seq d + 1;
                     row = \<lparr>aid = new_id, title = t, data = dat, price = pr,
                            owner_id = owner, is_private = priv, signature = sig,
                            created_at = (case created of
                                            None \<Rightarrow> now
                                          | Some c \<Rightarrow> if c = [] then now else c)\<rparr>;
                     d1 = d\<lparr>artworks := artworks d @ [row], artworks_seq := new_id\<rparr>;
                     d2 = (case settings of
                             None \<Rightarrow> d1
                           | Some sd \<Rightarrow>
                               d1\<lparr>artwork_settings := artwork_settings d1 @
                                     [\<lparr>sid = artwork_settings_seq d1 + 1,
                                       settings_artwork_id = new_id, settings_data = sd,
                                       settings_created_at = now\<rparr>],
                                   artwork_settings_seq := artwork_settings_seq d1 + 1\<rparr>)
                 in Inr (new_id, d2)))"

definition fetch_artwork_by_id :: "db \<Rightarrow> int \<Rightarrow> (artwork_row \<times> string) option" where
  \<comment> \<open>the artwork and, through the join, the name of its owner\<close>
  "fetch_artwork_by_id d artwork =
     (case fetchone (\<lambda>a. aid a = artwork) (artworks d) of
        None \<Rightarrow> None
      | Some a \<Rightarrow>
          (case fetchone (\<lambda>u. uid u = owner_id a) (users d) of
             None \<Rightarrow> None
           | Some u \<Rightarrow> Some (a, username u)))"

definition update_artwork ::
  "db \<Rightarrow> int \<Rightarrow> string \<Rightarrow> string \<Rightarrow> int \<Rightarrow> int \<Rightarrow> string \<Rightarrow> py_exception + (bool \<times> db)" where
  "update_artwork d artwork ttl dat pr priv sig =
     (if \<not> (sqlite_int_ok pr \<and> sqlite_int_ok priv \<and> sqlite_int_ok artwork)
      then Inl OverflowError
      else Inr (fetchone (\<lambda>a. aid a = artwork) (artworks d) \<noteq> None,
                d\<lparr>artworks := update_where (\<lambda>a. aid a = artwork)
                     (\<lambda>a. a\<lparr>title := ttl, data := dat, price := pr, is_private := priv,
                            signature := sig\<rparr>) (artworks d)\<rparr>))"


definition get_artwork_settings :: "db \<Rightarrow> int \<Rightarrow> string option" where
  "get_artwork_settings d artwork =
     map_option settings_data
       (fetchone (\<lambda>r. settings_artwork_id r = artwork) (artwork_settings d))"


section \<open>The routes (app.py)\<close>

text \<open>
  A route takes the store, the clock, the session, the request method and the form, and
  returns what it renders together with the store. The session holds \<open>username\<close> and
  \<open>user_id\<close>, which login and registration set together. The messages of the
  templates are Russian text and are named by constructors here; the template context is
  kept as far as the route computes it (the user name and the balance are left out).
  An exception that no handler of the route catches is the view \<open>ServerError\<close>.
\<close>

record session =
  sess_username :: string
  sess_user_id :: int

datatype http_method = GET | POST

datatype form_error =
    PriceNotNumber    \<comment> \<open>"the price must be a number"\<close>
  | FillAllFields     \<comment> \<open>"fill in all fields"\<close>

datatype import_error =
    UnsafeUrl             \<comment> \<open>"unsafe URL"\<close>
  | BadRedirect           \<comment> \<open>"malformed redirect"\<close>
  | UnsafeRedirect        \<comment> \<open>"unsafe redirect"\<close>
  | RedirectsForbidden    \<comment> \<open>"redirects are forbidden"\<close>
  | LoadError int         \<comment> \<open>"download error (status)"\<close>
  | UnsafeResponseUrl     \<comment> \<open>"unsafe response URL"\<close>
  | BadJsonFormat         \<comment> \<open>"wrong JSON format"\<close>
  | NotJson               \<comment> \<open>"the response is not JSON"\<close>
  | RequestError string   \<comment> \<open>"request error: (exception)"\<close>

record import_page =
  preview_content :: "string option"
  error :: "import_error option"
  success :: "int option"    \<comment> \<open>"Imported! ID: (id)"\<close>
  fetched_url :: "string option"

datatype view =
    Redirect string
  | CreateArtworkPage "form_error option"
  | EditArtworkPage artwork_row "form_error option" json
  | SettingsPage artwork_row json
  | ImportPage import_page
  | ServerError py_exception

definition form_get :: "(string \<rightharpoonup> string) \<Rightarrow> string \<Rightarrow> string \<Rightarrow> string" where
  \<comment> \<open>\<^verbatim>\<open>request.form.get(k, default)\<close>\<close>
  "form_get form k dflt = (case form k of Some v \<Rightarrow> v | None \<Rightarrow> dflt)"

definition checkbox :: "(string \<rightharpoonup> string) \<Rightarrow> string \<Rightarrow> int" where
  \<comment> \<open>\<^verbatim>\<open>1 if request.form.get(k) == 'on' else 0\<close>\<close>
  "checkbox form k = (if form k = Some ''on'' then 1 else 0)"

definition create_artwork ::
  "env \<Rightarrow> db \<Rightarrow> string \<Rightarrow> session option \<Rightarrow> http_method \<Rightarrow> (string \<rightharpoonup> string) \<Rightarrow> view \<times> db"
  where
  "create_artwork e d now sess method form =
     (case sess of
        None \<Rightarrow> (Redirect ''login'', d)
      | Some s \<Rightarrow>
          if \<not> user_exists d (sess_username s) then (Redirect ''login'', d)
          else if method = POST then
            (let ttl = py_strip (form_get form ''title'' []);
                 dat = py_strip (form_get form ''data'' []);
                 pr = py_strip (form_get form ''price'' ''0'');
                 priv = checkbox form ''is_private'';
                 sig = py_strip (form_get form ''signature'' []);
                 description = py_strip (form_get form ''description'' [])
             in case py_int pr of
                  None \<Rightarrow> (CreateArtworkPage (Some PriceNotNumber), d)
                | Some price_int \<Rightarrow>
                    if ttl = [] \<or> dat = [] then (CreateArtworkPage (Some FillAllFields), d)
                    else
                      (case create_artwork_record e d now (sess_user_id s) (JStr ttl) dat
                              price_int priv sig (save_artwork_description description) None of
                         Inl ex \<Rightarrow> (ServerError ex, d)
                       | Inr (_, d') \<Rightarrow> (Redirect ''index'', d')))
          else (CreateArtworkPage None, d))"

definition edit_artwork ::
  "env \<Rightarrow> db \<Rightarrow> session option \<Rightarrow> int \<Rightarrow> http_method \<Rightarrow> (string \<rightharpoonup> string) \<Rightarrow> view \<times> db"
  where
  "edit_artwork e d sess artwork method form =
     (case sess of
        None \<Rightarrow> (Redirect ''login'', d)
      | Some s \<Rightarrow>
          if \<not> user_exists d (sess_username s) then (Redirect ''login'', d)
          else
            (case fetch_artwork_by_id d artwork of
               None \<Rightarrow> (Redirect ''index'', d)
             | Some (art, _) \<Rightarrow>
                 if owner_id art \<noteq> sess_user_id s then (Redirect ''index'', d)
                 else if method = POST then
                   (let ttl = py_strip (form_get form ''title'' []);
                        dat = py_strip (form_get form ''data'' []);
                        pr = py_strip (form_get form ''price'' ''0'');
                        priv = checkbox form ''is_private'';
                        sig = py_strip (form_get form ''signature'' [])
                    in case py_int pr of
                         None \<Rightarrow> (EditArtworkPage art (Some PriceNotNumber) (JStr []), d)
                       | Some price_int \<Rightarrow>
                           if ttl = [] \<or> dat = []
                           then (EditArtworkPage art (Some FillAllFields) (JStr []), d)
                           else
                             (case update_artwork d artwork ttl dat price_int priv sig of
                                Inl ex \<Rightarrow> (ServerError ex, d)
                              | Inr (_, d') \<Rightarrow> (Redirect ''index'', d')))
                 else
                   (let settings_obj =
                          (case get_artwork_settings d artwork of
                             None \<Rightarrow> JNull
                           | Some raw \<Rightarrow>
                               if raw = [] then JNull
                               else load_artwork_settings e (SText raw));
                        description =
                          (case settings_obj of
                             JDict kvs \<Rightarrow>
                               if dict_has kvs ''description''
                               then dict_get kvs ''description'' (JStr [])
                               else JStr []
                           | _ \<Rightarrow> JStr [])
                    in (EditArtworkPage art None description, d))))"



definition DEFAULT_IMPORT_TITLE :: string where
  \<comment> \<open>the source's literal is Cyrillic, "imported composition"; its letters lie above
      code point 255 and are written in English here\<close>
  "DEFAULT_IMPORT_TITLE = ''Imported composition''"

definition redirect_error :: "env \<Rightarrow> string \<Rightarrow> http_response \<Rightarrow> import_error" where
  \<comment> \<open>the branch for a status from 300 to 399: each of its paths returns an error page\<close>
  "redirect_error e artwork_url resp =
     (case location resp of
        None \<Rightarrow> BadRedirect
      | Some loc \<Rightarrow>
          if loc = [] then BadRedirect
          else
            (case urljoin e artwork_url loc of
               Inl msg \<Rightarrow> RequestError msg
             | Inr next_url \<Rightarrow>
                 if \<not> fst (is_safe_url e next_url) then UnsafeRedirect
                 else RedirectsForbidden))"

definition import_json ::
  "env \<Rightarrow> db \<Rightarrow> string \<Rightarrow> int \<Rightarrow> http_response \<Rightarrow> (int option \<times> import_error option) \<times> db"
  where
  \<comment> \<open>the inner \<^verbatim>\<open>try\<close>: \<^verbatim>\<open>resp.json()\<close> parses the body of the response, and every
      exception below it is the message "the response is not JSON"\<close>
  "import_json e d now owner resp =
     (case json_loads e (resp_text resp) of
        None \<Rightarrow> ((None, Some NotJson), d)
      | Some (JDict kvs) \<Rightarrow>
          if dict_has kvs ''shapes'' then
            (let ttl = dict_get kvs ''title'' (JStr DEFAULT_IMPORT_TITLE);
                 shapes_json = json_dumps e (dict_get kvs ''shapes'' JNull);
                 pr = dict_get kvs ''price'' (JInt 100)
             in case (if str_isdigit pr then int_of_json pr else Some 100) of
                  None \<Rightarrow> ((None, Some NotJson), d)
                | Some price_int \<Rightarrow>
                    (case create_artwork_record e d now owner ttl shapes_json price_int 0
                            ''imported'' None None of
                       Inl ex \<Rightarrow> ((None, Some NotJson), d)
                     | Inr (import_id, d') \<Rightarrow> ((Some import_id, None), d')))
          else ((None, Some BadJsonFormat), d)
      | Some _ \<Rightarrow> ((None, Some BadJsonFormat), d))"

definition blank_page :: import_page where
  "blank_page = \<lparr>preview_content = None, error = None, success = None, fetched_url = None\<rparr>"

definition import_artwork ::
  "env \<Rightarrow> db \<Rightarrow> string \<Rightarrow> session option \<Rightarrow> http_method \<Rightarrow> (string \<rightharpoonup> string) \<Rightarrow> view \<times> db"
  where
  "import_artwork e d now sess method form =
     (case sess of
        None \<Rightarrow> (Redirect ''login'', d)
      | Some s \<Rightarrow>
          if \<not> user_exists d (sess_username s) then (Redirect ''login'', d)
          else if method = POST then
            (let artwork_url = py_strip (form_get form ''artwork_url'' []) in
             if artwork_url = [] then (ImportPage blank_page, d)
             else if \<not> fst (is_safe_url e artwork_url)
             then (ImportPage (blank_page\<lparr>error := Some UnsafeUrl\<rparr>), d)
             else
               (case requests_get e artwork_url of
                  Inl msg \<Rightarrow> (ImportPage (blank_page\<lparr>error := Some (RequestError msg)\<rparr>), d)
                | Inr resp \<Rightarrow>
                    if 300 \<le> status_code resp \<and> status_code resp < 400
                    then (ImportPage
                            (blank_page\<lparr>error := Some (redirect_error e artwork_url resp)\<rparr>), d)
                    else if status_code resp \<noteq> 200
                    then (ImportPage
                            (blank_page\<lparr>error := Some (LoadError (status_code resp))\<rparr>), d)
                    else if \<not> fst (is_safe_url e (url resp))
                    then (ImportPage (blank_page\<lparr>error := Some UnsafeResponseUrl\<rparr>), d)
                    else
                      (case import_json e d now (sess_user_id s) resp of
                         ((succ, err), d') \<Rightarrow>
                           (ImportPage
                              \<lparr>preview_content = Some (take 10000 (resp_text resp)),
                               error = err, success = succ,
                               fetched_url = Some (url resp)\<rparr>, d'))))
          else (ImportPage blank_page, d))"


section \<open>Concrete stores for the examples\<close>

definition alice :: user_row where
  "alice = \<lparr>uid = 1, username = ''alice'', password = ''5ebe2294ecd0e0f08eab7690d2a6ee69'',
            balance = 1000, user_created_at = ''2024-01-01 10:00:00''\<rparr>"

definition bob :: user_row where
  "bob = \<lparr>uid = 2, username = ''bob'', password = ''pbkdf2:sha256:1$salt$hunter2'',
          balance = 1000, user_created_at = ''2024-01-01 10:01:00''\<rparr>"

definition painting :: artwork_row where
  "painting = \<lparr>aid = 1, title = ''Red square'', data = ''[]'', price = 100, owner_id = 1,
               is_private = 0, signature = ''alice'', created_at = ''2024-01-01 10:02:00''\<rparr>"

definition shop_db :: db where
  \<comment> \<open>two users, and one artwork that alice owns\<close>
  "shop_db = \<lparr>users = [alice, bob], artworks = [painting], transactions = [],
              artwork_settings = [], users_seq = 2, artworks_seq = 1, transactions_seq = 0,
              artwork_settings_seq = 0\<rparr>"


section \<open>An environment for the examples\<close>

text \<open>
  The examples below run the routes in one concrete environment, \<open>test_env\<close>. Its
  \<^verbatim>\<open>json.loads\<close> is a parser for the part of JSON that the examples use: objects,
  arrays, strings with the escapes of the standard, integers, \<^verbatim>\<open>true\<close>, \<^verbatim>\<open>false\<close> and
  \<^verbatim>\<open>null\<close>, with white space where JSON allows it; a number with a fraction or an
  exponent is outside that part and is refused. Its resolver, its HTTP client and its
  hash functions are tables, as a test would mock them.
\<close>

definition json_ws :: "char \<Rightarrow> bool" where
  "json_ws c \<longleftrightarrow> c = CHR '' '' \<or> c = CHR 0x09 \<or> c = CHR 0x0A \<or> c = CHR 0x0D"

definition skip_ws :: "string \<Rightarrow> string" where
  "skip_ws s = dropWhile json_ws s"

definition hex_val :: "char \<Rightarrow> nat option" where
  "hex_val c =
     (let n = (of_char c :: nat)
      in if 48 \<le> n \<and> n \<le> 57 then Some (n - 48)
         else if 97 \<le> n \<and> n \<le> 102 then Some (n - 87)
         else if 65 \<le> n \<and> n \<le> 70 then Some (n - 55)
         else None)"

definition simple_escape :: "char \<Rightarrow> char option" where
  \<comment> \<open>the character that stands after a backslash, without \<^verbatim>\<open>u\<close>\<close>
  "simple_escape c =
     (if c = CHR 0x22 then Some (CHR 0x22)
      else if c = CHR 0x5C then Some (CHR 0x5C)
      else if c = CHR ''/'' then Some (CHR ''/'')
      else if c = CHR ''b'' then Some (CHR 0x08)
      else if c = CHR ''f'' then Some (CHR 0x0C)
      else if c = CHR ''n'' then Some (CHR 0x0A)
      else if c = CHR ''r'' then Some (CHR 0x0D)
      else if c = CHR ''t'' then Some (CHR 0x09)
      else None)"

fun scan_string :: "string \<Rightarrow> (string \<times> string) option" where
  \<comment> \<open>the characters of a string after its opening quote, and what follows the closing one\<close>
  "scan_string [] = None"
| "scan_string (c # cs) =
     (if c = CHR 0x22 then Some ([], cs)
      else if c = CHR 0x5C then
        (case cs of
           [] \<Rightarrow> None
         | e # r \<Rightarrow>
             if e = CHR ''u'' then
               (case r of
                  h1 # h2 # h3 # h4 # r' \<Rightarrow>
                    (case (hex_val h1, hex_val h2, hex_val h3, hex_val h4) of
                       (Some a, Some b, Some c', Some d) \<Rightarrow>
                         if a = 0 \<and> b = 0
                         then map_option (\<lambda>(t, rest). (char_of (16 * c' + d) # t, rest))
                                (scan_string r')
                         else None
                     | _ \<Rightarrow> None)
                | _ \<Rightarrow> None)
             else
               (case simple_escape e of
                  None \<Rightarrow> None
                | Some x \<Rightarrow> map_option (\<lambda>(t, rest). (x # t, rest)) (scan_string r)))
      else if (of_char c :: nat) < 32 then None
      else map_option (\<lambda>(t, rest). (c # t, rest)) (scan_string cs))"

fun scan_digits :: "int \<Rightarrow> string \<Rightarrow> int \<times> string" where
  "scan_digits acc [] = (acc, [])"
| "scan_digits acc (c # cs) =
     (if ascii_digit c then scan_digits (10 * acc + digit_val c) cs else (acc, c # cs))"

definition scan_int :: "string \<Rightarrow> (int \<times> string) option" where
  \<comment> \<open>an integer literal: an optional minus and digits, no leading zero before another
      digit, and no fraction or exponent after it\<close>
  "scan_int s =
     (let (neg, body) = (case s of c # cs \<Rightarrow> if c = CHR ''-'' then (True, cs) else (False, s)
                                 | [] \<Rightarrow> (False, s))
      in case body of
           [] \<Rightarrow> None
         | c # cs \<Rightarrow>
             if \<not> ascii_digit c then None
             else if c = CHR ''0'' \<and> (case cs of d # _ \<Rightarrow> ascii_digit d | [] \<Rightarrow> False) then None
             else
               (case scan_digits 0 body of
                  (n, rest) \<Rightarrow>
                    if (case rest of x # _ \<Rightarrow> x = CHR ''.'' \<or> x = CHR ''e'' \<or> x = CHR ''E''
                                  | [] \<Rightarrow> False)
                    then None
                    else Some (if neg then - n else n, rest)))"

fun dict_set :: "(string \<times> json) list \<Rightarrow> string \<Rightarrow> json \<Rightarrow> (string \<times> json) list" where
  \<comment> \<open>\<^verbatim>\<open>d[k] = v\<close>: a key that is present keeps its place\<close>
  "dict_set [] k v = [(k, v)]"
| "dict_set ((k', v') # rest) k v =
     (if k' = k then (k, v) # rest else (k', v') # dict_set rest k v)"

fun parse_value :: "nat \<Rightarrow> string \<Rightarrow> (json \<times> string) option"
  and parse_items :: "nat \<Rightarrow> string \<Rightarrow> (json list \<times> string) option"
  and parse_members :: "nat \<Rightarrow> string \<Rightarrow> ((string \<times> json) list \<times> string) option"
  where
  \<comment> \<open>the first argument bounds the depth of the calls; \<open>parse_items\<close> reads the elements
      of an array after its bracket and \<open>parse_members\<close> the members of an object after
      its brace\<close>
  "parse_value 0 s = None"
| "parse_value (Suc n) s =
     (case skip_ws s of
        [] \<Rightarrow> None
      | c # cs \<Rightarrow>
          if c = CHR 0x22 then map_option (\<lambda>(t, r). (JStr t, r)) (scan_string cs)
          else if c = CHR ''['' then
            (case skip_ws cs of
               [] \<Rightarrow> None
             | x # r \<Rightarrow>
                 if x = CHR '']'' then Some (JList [], r)
                 else map_option (\<lambda>(vs, r'). (JList vs, r')) (parse_items n cs))
          else if c = CHR ''{'' then
            (case skip_ws cs of
               [] \<Rightarrow> None
             | x # r \<Rightarrow>
                 if x = CHR ''}'' then Some (JDict [], r)
                 else map_option (\<lambda>(kvs, r'). (JDict (foldl (\<lambda>d (k, v). dict_set d k v) [] kvs), r'))
                        (parse_members n cs))
          else if take 4 (c # cs) = ''true'' then Some (JBool True, drop 4 (c # cs))
          else if take 5 (c # cs) = ''false'' then Some (JBool False, drop 5 (c # cs))
          else if take 4 (c # cs) = ''null'' then Some (JNull, drop 4 (c # cs))
          else map_option (\<lambda>(i, r). (JInt i, r)) (scan_int (c # cs)))"
| "parse_items 0 s = None"
| "parse_items (Suc n) s =
     (case parse_value n s of
        None \<Rightarrow> None
      | Some (v, r) \<Rightarrow>
          (case skip_ws r of
             [] \<Rightarrow> None
           | x # r' \<Rightarrow>
               if x = CHR '','' then map_option (\<lambda>(vs, r''). (v # vs, r'')) (parse_items n r')
               else if x = CHR '']'' then Some ([v], r')
               else None))"
| "parse_members 0 s = None"
| "parse_members (Suc n) s =
     (case skip_ws s of
        [] \<Rightarrow> None
      | q # cs \<Rightarrow>
          if q \<noteq> CHR 0x22 then None
          else
            (case scan_string cs of
               None \<Rightarrow> None
             | Some (k, r) \<Rightarrow>
                 (case skip_ws r of
                    [] \<Rightarrow> None
                  | colon # r' \<Rightarrow>
                      if colon \<noteq> CHR '':'' then None
                      else
                        (case parse_value n r' of
                           None \<Rightarrow> None
                         | Some (v, r'') \<Rightarrow>
                             (case skip_ws r'' of
                                [] \<Rightarrow> None
                              | x # r3 \<Rightarrow>
                                  if x = CHR '','' then
                                    map_option (\<lambda>(kvs, r4). ((k, v) # kvs, r4))
                                      (parse_members n r3)
                                  else if x = CHR ''}'' then Some ([(k, v)], r3)
                                  else None)))))"

definition test_loads :: "string \<Rightarrow> json option" where
  "test_loads s =
     (case parse_value (Suc (length s)) s of
        None \<Rightarrow> None
      | Some (v, rest) \<Rightarrow> if skip_ws rest = [] then Some v else None)"

text \<open>
  \<^verbatim>\<open>json.dumps\<close> with its defaults: \<^verbatim>\<open>", "\<close> between items, \<^verbatim>\<open>": "\<close> after a key, and
  every character outside the printable ASCII range escaped.
\<close>

definition hex_digit :: "nat \<Rightarrow> char" where
  "hex_digit n = (if n < 10 then char_of (48 + n) else char_of (87 + n))"

definition escape_char :: "char \<Rightarrow> string" where
  "escape_char c =
     (let n = (of_char c :: nat)
      in if c = CHR 0x22 then [CHR 0x5C, CHR 0x22]
         else if c = CHR 0x5C then [CHR 0x5C, CHR 0x5C]
         else if c = CHR 0x0A then [CHR 0x5C, CHR ''n'']
         else if c = CHR 0x0D then [CHR 0x5C, CHR ''r'']
         else if c = CHR 0x09 then [CHR 0x5C, CHR ''t'']
         else if c = CHR 0x08 then [CHR 0x5C, CHR ''b'']
         else if c = CHR 0x0C then [CHR 0x5C, CHR ''f'']
         else if 32 \<le> n \<and> n \<le> 126 then [c]
         else [CHR 0x5C, CHR ''u'', CHR ''0'', CHR ''0'', hex_digit (n div 16),
               hex_digit (n mod 16)])"

definition dumps_string :: "string \<Rightarrow> string" where
  "dumps_string s = CHR 0x22 # concat (map escape_char s) @ [CHR 0x22]"

fun join :: "string \<Rightarrow> string list \<Rightarrow> string" where
  "join sep [] = []"
| "join sep [x] = x"
| "join sep (x # y # rest) = x @ sep @ join sep (y # rest)"

fun test_dumps :: "json \<Rightarrow> string" where
  "test_dumps JNull = ''null''"
| "test_dumps (JBool b) = (if b then ''true'' else ''false'')"
| "test_dumps (JInt n) = decimal n"
| "test_dumps (JFloat r) = r"
| "test_dumps (JStr s) = dumps_string s"
| "test_dumps (JList vs) = ''['' @ join '', '' (map test_dumps vs) @ '']''"
| "test_dumps (JDict kvs) =
     ''{'' @ join '', '' (map (\<lambda>(k, v). dumps_string k @ '': '' @ test_dumps v) kvs) @ ''}''"

definition test_urlparse :: "string \<Rightarrow> (string \<times> string option) option" where
  \<comment> \<open>for URLs of the shape \<^verbatim>\<open>scheme://host/path\<close>, without user or port\<close>
  "test_urlparse u =
     (let scheme = takeWhile (\<lambda>c. c \<noteq> CHR '':'') u;
          rest = dropWhile (\<lambda>c. c \<noteq> CHR '':'') u
      in if take 3 rest = ''://'' then
           (let host = takeWhile (\<lambda>c. c \<noteq> CHR ''/'') (drop 3 rest)
            in Some (py_lower scheme, if host = [] then None else Some (py_lower host)))
         else Some ([], None))"

definition public_ip :: "string \<Rightarrow> ipaddr" where
  "public_ip s = \<lparr>ip_str = s, is_loopback = False, ipaddr.is_private = False, is_link_local = False,
                  is_unspecified = False, is_multicast = False, is_reserved = False\<rparr>"

definition test_ip_address :: "string \<Rightarrow> ipaddr option" where
  "test_ip_address s =
     (if s = ''93.184.216.34'' \<or> s = ''8.8.8.8'' then Some (public_ip s)
      else if s = ''10.0.0.5'' then Some ((public_ip s)\<lparr>ipaddr.is_private := True\<rparr>)
      else if s = ''127.0.0.1'' then Some ((public_ip s)\<lparr>is_loopback := True, ipaddr.is_private := True\<rparr>)
      else if s = ''169.254.169.254''
      then Some ((public_ip s)\<lparr>ipaddr.is_private := True, is_link_local := True\<rparr>)
      else None)"

definition test_getaddrinfo :: "string \<Rightarrow> (family \<times> string) list option" where
  \<comment> \<open>a resolver that answers one public address for every name it does not know, as a
      resolver with a wildcard record does\<close>
  "test_getaddrinfo h =
     (if h = ''mixed.test'' then Some [(AF_INET, ''93.184.216.34''), (AF_INET, ''10.0.0.5'')]
      else if h = ''intranet.test'' then Some [(AF_INET, ''10.0.0.5'')]
      else if h = ''nowhere.test'' then None
      else Some [(AF_INET, ''93.184.216.34'')])"

definition art_body :: string where
  \<open>art_body = ''{"shapes":[1,2],"title":"T","price":"50"}''\<close>

definition padded_body :: string where
  \<open>padded_body = replicate 10000 (CHR '' '') @ ''{"shapes":[1,2]}''\<close>

definition untitled_body :: string where
  \<open>untitled_body = ''{"shapes":[1,2],"title":null}''\<close>

definition superscript_body :: string where
  \<comment> \<open>the price is the one character U+00B2, superscript two\<close>
  \<open>superscript_body = ''{"shapes":[1,2],"price":"'' @ [CHR 0xB2] @ ''"}''\<close>

definition test_requests_get :: "string \<Rightarrow> string + http_response" where
  "test_requests_get u =
     (if u = ''http://example.com/art.json''
      then Inr \<lparr>status_code = 200, location = None, url = u, resp_text = art_body\<rparr>
      else if u = ''http://example.com/padded.json''
      then Inr \<lparr>status_code = 200, location = None, url = u, resp_text = padded_body\<rparr>
      else if u = ''http://example.com/untitled.json''
      then Inr \<lparr>status_code = 200, location = None, url = u, resp_text = untitled_body\<rparr>
      else if u = ''http://example.com/moved''
      then Inr \<lparr>status_code = 302, location = Some ''http://example.com/art.json'', url = u,
                resp_text = []\<rparr>
      else Inl ''connection refused'')"

definition test_env :: env where
  "test_env =
     \<lparr>urlparse = test_urlparse,
      urljoin = (\<lambda>base loc. Inr loc),
      ip_address = test_ip_address,
      getaddrinfo = test_getaddrinfo,
      requests_get = test_requests_get,
      json_loads = test_loads,
      json_dumps = test_dumps,
      md5_hexdigest = (\<lambda>pw. if pw = ''secret'' then ''5ebe2294ecd0e0f08eab7690d2a6ee69''
                             else ''d41d8cd98f00b204e9800998ecf8427e''),
      generate_password_hash = (\<lambda>salt pw. ''pbkdf2:sha256:1$'' @ salt @ ''$'' @ pw),
      check_password_hash = (\<lambda>stored pw. stored = ''pbkdf2:sha256:1$salt$'' @ pw),
      sqlite_real_text = Some\<rparr>"

section \<open>The ledger: purchases\<close>


lemma fetchone_update_where:
  assumes "\<And>r. p (f r) = p r"
  shows "fetchone p (update_where q f rows)
         = map_option (\<lambda>r. if q r then f r else r) (fetchone p rows)"
  unfolding fetchone_def update_where_def using assms by (induction rows) auto

lemma fetchone_update_key:
  assumes "\<And>r. key (f r) = key r"
  shows "fetchone (\<lambda>r. key r = j) (update_where (\<lambda>r. key r = k) f rows)
         = map_option (\<lambda>r. if key r = k then f r else r) (fetchone (\<lambda>r. key r = j) rows)"
  unfolding fetchone_def update_where_def using assms by (induction rows) auto

lemma fetchone_SomeD: "fetchone p rows = Some r \<Longrightarrow> p r"
  by (auto simp: fetchone_def find_Some_iff)

lemma balance_update_where:
  "get_user_balance (d\<lparr>users := update_where (\<lambda>u. uid u = k) (\<lambda>u. u\<lparr>balance := g (balance u)\<rparr>) (users d)\<rparr>) j
     = (case fetchone (\<lambda>u. uid u = j) (users d) of
          None \<Rightarrow> 0
        | Some u \<Rightarrow> if j = k then g (balance u) else balance u)"
  by (auto simp: get_user_balance_def fetchone_update_key [where key = uid]
        split: option.splits dest: fetchone_SomeD)










section \<open>The credential store: login\<close>

text \<open>
  Claim C6. When the stored credential of a user is a legacy digest (it carries no scheme
  marker) and equals the digest of the supplied password, \<^verbatim>\<open>authenticate_user\<close> succeeds
  and returns a store in which the credential is the hash of the current scheme; a second
  call with the same password then takes the branch of the current scheme, succeeds, and
  leaves the store as it is. What werkzeug guarantees is assumed of the environment: the
  hash it generates carries the scheme marker and verifies against its password.
\<close>

theorem legacy_login_upgrades:
  assumes row: "fetchone (\<lambda>u. username u = uname) (users d) = Some user"
    and legacy: "\<not> is_current_scheme (password user)"
    and digest: "password user = md5_hexdigest e pw"
    and marker: "is_current_scheme (generate_password_hash e salt pw)"
    and verify: "check_password_hash e (generate_password_hash e salt pw) pw"
  shows "fst (authenticate_user e d salt uname pw) = Some (uid user, username user, balance user)
       \<and> fetchone (\<lambda>u. username u = uname) (users (snd (authenticate_user e d salt uname pw)))
           = Some (user\<lparr>password := generate_password_hash e salt pw\<rparr>)
       \<and> is_current_scheme (generate_password_hash e salt pw)
       \<and> authenticate_user e (snd (authenticate_user e d salt uname pw)) salt' uname pw
           = (Some (uid user, username user, balance user),
              snd (authenticate_user e d salt uname pw))"
proof -
  let ?new = "generate_password_hash e salt pw"
  let ?d' = "d\<lparr>users := update_where (\<lambda>u. uid u = uid user)
                            (\<lambda>u. u\<lparr>password := ?new\<rparr>) (users d)\<rparr>"
  have first: "authenticate_user e d salt uname pw
                 = (Some (uid user, username user, balance user), ?d')"
    using row legacy digest by (simp add: authenticate_user_def Let_def)
  have stored: "fetchone (\<lambda>u. username u = uname) (users ?d')
                  = Some (user\<lparr>password := ?new\<rparr>)"
    using row by (simp add: fetchone_update_where)
  have second: "authenticate_user e ?d' salt' uname pw
                  = (Some (uid user, username user, balance user), ?d')"
    using stored marker verify by (simp add: authenticate_user_def Let_def)
  show ?thesis using first stored second marker by simp
qed

theorem legacy_login_upgrades_witness:
  "fetchone (\<lambda>u. username u = ''alice'') (users shop_db) = Some alice
   \<and> \<not> is_current_scheme (password alice)
   \<and> password alice = md5_hexdigest test_env ''secret''
   \<and> fst (authenticate_user test_env shop_db ''salt'' ''alice'' ''secret'') = Some (1, ''alice'', 1000)
   \<and> map password (users (snd (authenticate_user test_env shop_db ''salt'' ''alice'' ''secret'')))
       = [''pbkdf2:sha256:1$salt$secret'', ''pbkdf2:sha256:1$salt$hunter2'']
   \<and> fst (authenticate_user test_env
             (snd (authenticate_user test_env shop_db ''salt'' ''alice'' ''secret''))
             ''pepper'' ''alice'' ''secret'') = Some (1, ''alice'', 1000)"
proof -
  have row: "fetchone (\<lambda>u. username u = ''alice'') (users shop_db) = Some alice"
    by (simp add: shop_db_def alice_def fetchone_def)
  have legacy: "\<not> is_current_scheme (password alice)"
    by (simp add: alice_def is_current_scheme_def)
  have digest: "password alice = md5_hexdigest test_env ''secret''"
    by (simp add: alice_def test_env_def)
  have gen: "generate_password_hash test_env ''salt'' ''secret'' = ''pbkdf2:sha256:1$salt$secret''"
    by (simp add: test_env_def)
  have marker: "is_current_scheme (generate_password_hash test_env ''salt'' ''secret'')"
    by (simp add: gen is_current_scheme_def)
  have verify: "check_password_hash test_env
                  (generate_password_hash test_env ''salt'' ''secret'') ''secret''"
    by (simp add: test_env_def)
  have a: "uid alice = 1" "username alice = ''alice''" "balance alice = 1000"
    by (simp_all add: alice_def)
  have pws: "map password (users (snd (authenticate_user test_env shop_db ''salt'' ''alice'' ''secret'')))
       = [''pbkdf2:sha256:1$salt$secret'', ''pbkdf2:sha256:1$salt$hunter2'']"
    by (simp add: authenticate_user_def shop_db_def alice_def bob_def fetchone_def
          is_current_scheme_def test_env_def update_where_def)
  from legacy_login_upgrades [OF row legacy digest marker verify, of "''pepper''"]
    row legacy digest a pws
  show ?thesis by simp
qed

section \<open>The price of a stored artwork\<close>


lemmas py_eval = py_int_def py_strip_def py_isspace_def ascii_digit_def digit_val_def

text \<open>
  Claim C9 fails on the code. The routes that create and edit an artwork by hand convert
  the price with \<^verbatim>\<open>int()\<close> and store whatever integer comes out; only the import route
  restricts the price to digit strings. Alice, logged in, posts the price \<^verbatim>\<open>-5\<close>: the
  new artwork is stored with the price \<open>-5\<close>, and her existing artwork is edited to the
  price \<open>-5\<close>.
\<close>

theorem negative_price_is_stored:
  "create_artwork test_env shop_db ''2024-01-01 10:05:00''
      (Some \<lparr>sess_username = ''alice'', sess_user_id = 1\<rparr>) POST
      [''title'' \<mapsto> ''Debt'', ''data'' \<mapsto> ''[]'', ''price'' \<mapsto> ''-5'']
    = (Redirect ''index'',
       shop_db\<lparr>artworks := [painting,
                  \<lparr>aid = 2, title = ''Debt'', data = ''[]'', price = - 5, owner_id = 1,
                   is_private = 0, signature = [], created_at = ''2024-01-01 10:05:00''\<rparr>],
                artworks_seq := 2\<rparr>)
   \<and> edit_artwork test_env shop_db (Some \<lparr>sess_username = ''alice'', sess_user_id = 1\<rparr>) 1 POST
      [''title'' \<mapsto> ''Debt'', ''data'' \<mapsto> ''[]'', ''price'' \<mapsto> ''-5'']
    = (Redirect ''index'',
       shop_db\<lparr>artworks := [painting\<lparr>title := ''Debt'', data := ''[]'', price := - 5,
                                      is_private := 0, signature := []\<rparr>]\<rparr>)"
proof -
  have p: "py_int ''-5'' = Some (- 5)" by (simp add: py_eval)
  have s: "py_strip ''Debt'' = ''Debt''" "py_strip ''[]'' = ''[]''" "py_strip ''-5'' = ''-5''"
    "py_strip [] = []"
    by (simp_all add: py_strip_def py_isspace_def)
  have u: "user_exists shop_db ''alice''"
    by (simp add: user_exists_def shop_db_def alice_def fetchone_def)
  have c: "create_artwork_record test_env shop_db ''2024-01-01 10:05:00'' 1 (JStr ''Debt'') ''[]''
             (- 5) 0 [] None None
           = Inr (2, shop_db\<lparr>artworks := [painting,
                  \<lparr>aid = 2, title = ''Debt'', data = ''[]'', price = - 5, owner_id = 1,
                   is_private = 0, signature = [], created_at = ''2024-01-01 10:05:00''\<rparr>],
                artworks_seq := 2\<rparr>)"
    by (simp add: create_artwork_record_def bind_param_def text_column_def sqlite_int_ok_def
          shop_db_def Let_def)
  have f: "fetch_artwork_by_id shop_db 1 = Some (painting, ''alice'')"
    by (simp add: fetch_artwork_by_id_def shop_db_def painting_def alice_def fetchone_def)
  have e: "update_artwork shop_db 1 ''Debt'' ''[]'' (- 5) 0 []
           = Inr (True, shop_db\<lparr>artworks := [painting\<lparr>title := ''Debt'', data := ''[]'',
                    price := - 5, is_private := 0, signature := []\<rparr>]\<rparr>)"
    by (simp add: update_artwork_def sqlite_int_ok_def shop_db_def painting_def fetchone_def
          update_where_def)
  have o: "owner_id painting = 1" by (simp add: painting_def)
  show ?thesis
    by (simp add: create_artwork_def edit_artwork_def form_get_def checkbox_def
          save_artwork_description_def p s u c f e o)
qed

section \<open>Running the parser of the examples\<close>


lemma parse_value_numeral [simp]:
  "parse_value (numeral k) s = parse_value (Suc (pred_numeral k)) s"
  by (simp only: numeral_eq_Suc)

lemma parse_items_numeral [simp]:
  "parse_items (numeral k) s = parse_items (Suc (pred_numeral k)) s"
  by (simp only: numeral_eq_Suc)

lemma parse_members_numeral [simp]:
  "parse_members (numeral k) s = parse_members (Suc (pred_numeral k)) s"
  by (simp only: numeral_eq_Suc)

lemmas json_eval = test_loads_def skip_ws_def json_ws_def scan_int_def ascii_digit_def
  digit_val_def simple_escape_def hex_val_def

section \<open>The settings codec\<close>













section \<open>The URL guard\<close>

lemma set_collect_addrs:
  "set (collect_addrs answers)
     = {a. (AF_INET, a) \<in> set answers \<or> (AF_INET6, a) \<in> set answers}"
  by (induction answers rule: collect_addrs.induct) auto

lemma check_addrs_iff:
  "check_addrs e xs \<longleftrightarrow> (\<forall>a \<in> set xs. \<exists>ip. ip_address e a = Some ip \<and> is_public_ip ip)"
  by (induction xs) (auto split: option.splits)

lemma is_safe_url_resolved:
  assumes "urlparse e u = Some (scheme, Some hostname)"
    and "scheme = ''http'' \<or> scheme = ''https''"
    and "hostname \<noteq> []"
    and "py_lower hostname \<noteq> ''localhost''"
    and "py_lower hostname \<noteq> ''localhost.localdomain''"
    and "ip_address e hostname = None"
    and "getaddrinfo e hostname = Some answers"
  shows "is_safe_url e u =
           (if collect_addrs answers \<noteq> [] \<and> check_addrs e (collect_addrs answers)
            then (True, hd (sort (remdups (collect_addrs answers)))) else (False, ''403''))"
  using assms by (auto simp: is_safe_url_def Let_def check_addrs_iff)

text \<open>
  Claim C3, as the code has it. For a URL with the scheme http or https whose host name is
  not one of the two blocked names and is not a literal address, the guard looks at every
  IPv4 and IPv6 answer of the resolver. The URL is allowed exactly when there is at least
  one such answer and each of them parses as an address that is public; one answer that is
  loopback, private, link-local, unspecified, multicast or reserved denies the URL,
  whatever the other answers are.
\<close>

theorem classify_resolved_host:
  assumes "urlparse e u = Some (scheme, Some hostname)"
    and "scheme = ''http'' \<or> scheme = ''https''"
    and "hostname \<noteq> []"
    and "py_lower hostname \<noteq> ''localhost''"
    and "py_lower hostname \<noteq> ''localhost.localdomain''"
    and "ip_address e hostname = None"
    and "getaddrinfo e hostname = Some answers"
  shows "(fst (is_safe_url e u) \<longleftrightarrow>
            (\<exists>a. (AF_INET, a) \<in> set answers \<or> (AF_INET6, a) \<in> set answers)
          \<and> (\<forall>a. (AF_INET, a) \<in> set answers \<or> (AF_INET6, a) \<in> set answers \<longrightarrow>
                (\<exists>ip. ip_address e a = Some ip \<and> is_public_ip ip)))
       \<and> ((\<exists>a ip. ((AF_INET, a) \<in> set answers \<or> (AF_INET6, a) \<in> set answers)
              \<and> ip_address e a = Some ip
              \<and> (is_loopback ip \<or> ipaddr.is_private ip \<or> is_link_local ip
                   \<or> is_unspecified ip \<or> is_multicast ip \<or> is_reserved ip))
            \<longrightarrow> is_safe_url e u = (False, ''403''))"
proof -
  let ?addrs = "collect_addrs answers"
  have eq: "is_safe_url e u =
           (if ?addrs \<noteq> [] \<and> check_addrs e ?addrs
            then (True, hd (sort (remdups ?addrs))) else (False, ''403''))"
    using assms by (rule is_safe_url_resolved)
  have nonempty: "?addrs \<noteq> [] \<longleftrightarrow>
      (\<exists>a. (AF_INET, a) \<in> set answers \<or> (AF_INET6, a) \<in> set answers)"
    using set_collect_addrs [of answers] by (auto simp: set_empty [symmetric] simp del: set_empty)
  have all: "check_addrs e ?addrs \<longleftrightarrow>
      (\<forall>a. (AF_INET, a) \<in> set answers \<or> (AF_INET6, a) \<in> set answers \<longrightarrow>
                (\<exists>ip. ip_address e a = Some ip \<and> is_public_ip ip))"
    by (simp add: check_addrs_iff set_collect_addrs)
  have allowed: "fst (is_safe_url e u) \<longleftrightarrow> ?addrs \<noteq> [] \<and> check_addrs e ?addrs"
    by (simp add: eq)
  have denied: "is_safe_url e u = (False, ''403'')"
    if "\<exists>a ip. ((AF_INET, a) \<in> set answers \<or> (AF_INET6, a) \<in> set answers)
              \<and> ip_address e a = Some ip
              \<and> (is_loopback ip \<or> ipaddr.is_private ip \<or> is_link_local ip
                   \<or> is_unspecified ip \<or> is_multicast ip \<or> is_reserved ip)"
  proof -
    from that have "\<not> check_addrs e ?addrs"
      unfolding all by (auto simp: is_public_ip_def)
    then show ?thesis by (simp add: eq)
  qed
  show ?thesis using allowed nonempty all denied by blast
qed


lemma urlparse_example:
  "test_urlparse ''http://example.com/art.json'' = Some (''http'', Some ''example.com'')"
  by (simp add: test_urlparse_def py_lower_def py_lower_char_def)

lemma urlparse_mixed:
  "test_urlparse ''http://mixed.test/art.json'' = Some (''http'', Some ''mixed.test'')"
  by (simp add: test_urlparse_def py_lower_def py_lower_char_def)

lemma lower_example: "py_lower ''example.com'' = ''example.com''"
  by (simp add: py_lower_def py_lower_char_def)

lemma lower_mixed: "py_lower ''mixed.test'' = ''mixed.test''"
  by (simp add: py_lower_def py_lower_char_def)

theorem classify_resolved_host_witness:
  "urlparse test_env ''http://example.com/art.json'' = Some (''http'', Some ''example.com'')
   \<and> ip_address test_env ''example.com'' = None
   \<and> getaddrinfo test_env ''example.com'' = Some [(AF_INET, ''93.184.216.34'')]
   \<and> ip_address test_env ''93.184.216.34'' = Some (public_ip ''93.184.216.34'')
   \<and> is_public_ip (public_ip ''93.184.216.34'')
   \<and> fst (is_safe_url test_env ''http://example.com/art.json'')
   \<and> urlparse test_env ''http://mixed.test/art.json'' = Some (''http'', Some ''mixed.test'')
   \<and> ip_address test_env ''mixed.test'' = None
   \<and> getaddrinfo test_env ''mixed.test''
       = Some [(AF_INET, ''93.184.216.34''), (AF_INET, ''10.0.0.5'')]
   \<and> ip_address test_env ''10.0.0.5'' = Some ((public_ip ''10.0.0.5'')\<lparr>ipaddr.is_private := True\<rparr>)
   \<and> is_safe_url test_env ''http://mixed.test/art.json'' = (False, ''403'')"
proof -
  have p1: "urlparse test_env ''http://example.com/art.json'' = Some (''http'', Some ''example.com'')"
    by (simp add: test_env_def urlparse_example)
  have l1: "ip_address test_env ''example.com'' = None"
    by (simp add: test_env_def test_ip_address_def)
  have g1: "getaddrinfo test_env ''example.com'' = Some [(AF_INET, ''93.184.216.34'')]"
    by (simp add: test_env_def test_getaddrinfo_def)
  have i1: "ip_address test_env ''93.184.216.34'' = Some (public_ip ''93.184.216.34'')"
    by (simp add: test_env_def test_ip_address_def)
  have pub: "is_public_ip (public_ip ''93.184.216.34'')"
    by (simp add: is_public_ip_def public_ip_def)
  have p2: "urlparse test_env ''http://mixed.test/art.json'' = Some (''http'', Some ''mixed.test'')"
    by (simp add: test_env_def urlparse_mixed)
  have l2: "ip_address test_env ''mixed.test'' = None"
    by (simp add: test_env_def test_ip_address_def)
  have g2: "getaddrinfo test_env ''mixed.test''
       = Some [(AF_INET, ''93.184.216.34''), (AF_INET, ''10.0.0.5'')]"
    by (simp add: test_env_def test_getaddrinfo_def)
  have i2: "ip_address test_env ''10.0.0.5''
       = Some ((public_ip ''10.0.0.5'')\<lparr>ipaddr.is_private := True\<rparr>)"
    by (simp add: test_env_def test_ip_address_def)
  have allowed: "fst (is_safe_url test_env ''http://example.com/art.json'')"
    using classify_resolved_host [OF p1 _ _ _ _ l1 g1] i1 pub
    by (simp add: lower_example)
  have "\<exists>a ip. ((AF_INET, a) \<in> set [(AF_INET, ''93.184.216.34''), (AF_INET, ''10.0.0.5'')]
                  \<or> (AF_INET6, a) \<in> set [(AF_INET, ''93.184.216.34''), (AF_INET, ''10.0.0.5'')])
              \<and> ip_address test_env a = Some ip
              \<and> (is_loopback ip \<or> ipaddr.is_private ip \<or> is_link_local ip
                   \<or> is_unspecified ip \<or> is_multicast ip \<or> is_reserved ip)"
    by (rule exI [of _ "''10.0.0.5''"],
        rule exI [of _ "(public_ip ''10.0.0.5'')\<lparr>ipaddr.is_private := True\<rparr>"])
       (simp add: i2)
  with classify_resolved_host [OF p2 _ _ _ _ l2 g2]
  have denied: "is_safe_url test_env ''http://mixed.test/art.json'' = (False, ''403'')"
    by (simp add: lower_mixed)
  from p1 l1 g1 i1 pub allowed p2 l2 g2 i2 denied show ?thesis by simp
qed

text \<open>
  The two gates that stand before the resolver. The name \<^verbatim>\<open>localhost.localdomain\<close> is
  denied without being resolved, also where the resolver would answer a public address for
  it; and a URL with another scheme is denied although its host resolves to public
  addresses only.
\<close>

theorem classify_gate_counterexample:
  "urlparse test_env ''http://localhost.localdomain/art.json''
     = Some (''http'', Some ''localhost.localdomain'')
   \<and> ip_address test_env ''localhost.localdomain'' = None
   \<and> getaddrinfo test_env ''localhost.localdomain'' = Some [(AF_INET, ''93.184.216.34'')]
   \<and> ip_address test_env ''93.184.216.34'' = Some (public_ip ''93.184.216.34'')
   \<and> is_public_ip (public_ip ''93.184.216.34'')
   \<and> is_safe_url test_env ''http://localhost.localdomain/art.json'' = (False, ''403'')
   \<and> urlparse test_env ''ftp://example.com/art.json'' = Some (''ftp'', Some ''example.com'')
   \<and> getaddrinfo test_env ''example.com'' = Some [(AF_INET, ''93.184.216.34'')]
   \<and> is_safe_url test_env ''ftp://example.com/art.json'' = (False, ''403'')"
  by (simp add: is_safe_url_def test_env_def test_urlparse_def py_lower_def py_lower_char_def
        test_ip_address_def test_getaddrinfo_def is_public_ip_def public_ip_def)



section \<open>The import route: redirects\<close>

lemma check_addrs_requests_get:
  "check_addrs (e\<lparr>requests_get := g\<rparr>) xs = check_addrs e xs"
  by (induction xs) (auto split: option.splits)

lemma is_safe_url_requests_get:
  "is_safe_url (e\<lparr>requests_get := g\<rparr>) u = is_safe_url e u"
  by (simp add: is_safe_url_def check_addrs_requests_get cong: option.case_cong if_cong)

lemma redirect_error_requests_get:
  "redirect_error (e\<lparr>requests_get := g\<rparr>) u resp = redirect_error e u resp"
  by (simp add: redirect_error_def is_safe_url_requests_get
        cong: option.case_cong sum.case_cong if_cong)

lemma import_artwork_redirect:
  assumes "user_exists d (sess_username s)"
    and "py_strip (form_get form ''artwork_url'' []) = u"
    and "u \<noteq> []"
    and "fst (is_safe_url e u)"
    and "requests_get e u = Inr resp"
    and "300 \<le> status_code resp" and "status_code resp < 400"
  shows "import_artwork e d now (Some s) POST form
         = (ImportPage \<lparr>preview_content = None, error = Some (redirect_error e u resp),
                        success = None, fetched_url = None\<rparr>, d)"
  using assms by (simp add: import_artwork_def blank_page_def Let_def)

text \<open>
  Claim C4. When the response to the one request has a status from 300 to 399, the import
  route renders an error and nothing else: no preview, no fetched URL, no success, and the
  store as it was, whether the \<^verbatim>\<open>Location\<close> header is absent, empty, unsafe or safe. The
  route asks the HTTP client for nothing but the submitted URL: what the client would
  answer for any other URL, the redirect target among them, does not change the outcome.
\<close>

theorem redirect_is_never_followed:
  assumes "user_exists d (sess_username s)"
    and "py_strip (form_get form ''artwork_url'' []) = u"
    and "u \<noteq> []"
    and "fst (is_safe_url e u)"
    and "requests_get e u = Inr resp"
    and "300 \<le> status_code resp" and "status_code resp < 400"
  shows "(\<exists>err. import_artwork e d now (Some s) POST form
            = (ImportPage \<lparr>preview_content = None, error = Some err, success = None,
                           fetched_url = None\<rparr>, d))
       \<and> (target \<noteq> u \<longrightarrow>
            import_artwork (e\<lparr>requests_get := (requests_get e)(target := answer)\<rparr>) d now
               (Some s) POST form
            = import_artwork e d now (Some s) POST form)"
proof -
  let ?e' = "e\<lparr>requests_get := (requests_get e)(target := answer)\<rparr>"
  have here: "import_artwork e d now (Some s) POST form
         = (ImportPage \<lparr>preview_content = None, error = Some (redirect_error e u resp),
                        success = None, fetched_url = None\<rparr>, d)"
    using assms by (rule import_artwork_redirect)
  have there: "import_artwork ?e' d now (Some s) POST form
         = (ImportPage \<lparr>preview_content = None, error = Some (redirect_error ?e' u resp),
                        success = None, fetched_url = None\<rparr>, d)"
    if "target \<noteq> u"
    using assms that
    by (intro import_artwork_redirect) (simp_all add: is_safe_url_requests_get)
  show ?thesis
    using here there by (auto simp: redirect_error_requests_get)
qed

lemma safe_example: "is_safe_url test_env ''http://example.com/moved'' = (True, ''93.184.216.34'')"
  by (simp add: is_safe_url_def test_env_def test_urlparse_def py_lower_def py_lower_char_def
        test_ip_address_def test_getaddrinfo_def is_public_ip_def public_ip_def)

theorem redirect_is_never_followed_witness:
  "user_exists shop_db (sess_username \<lparr>sess_username = ''alice'', sess_user_id = 1\<rparr>)
   \<and> fst (is_safe_url test_env ''http://example.com/moved'')
   \<and> requests_get test_env ''http://example.com/moved''
       = Inr \<lparr>status_code = 302, location = Some ''http://example.com/art.json'',
              url = ''http://example.com/moved'', resp_text = []\<rparr>
   \<and> fst (is_safe_url test_env ''http://example.com/art.json'')
   \<and> import_artwork test_env shop_db ''2024-01-01 10:05:00''
         (Some \<lparr>sess_username = ''alice'', sess_user_id = 1\<rparr>) POST
         [''artwork_url'' \<mapsto> ''http://example.com/moved'']
       = (ImportPage \<lparr>preview_content = None, error = Some RedirectsForbidden, success = None,
                      fetched_url = None\<rparr>, shop_db)
   \<and> import_artwork
         (test_env\<lparr>requests_get := (requests_get test_env)
             (''http://example.com/art.json'' := Inl ''never asked'')\<rparr>)
         shop_db ''2024-01-01 10:05:00''
         (Some \<lparr>sess_username = ''alice'', sess_user_id = 1\<rparr>) POST
         [''artwork_url'' \<mapsto> ''http://example.com/moved'']
       = (ImportPage \<lparr>preview_content = None, error = Some RedirectsForbidden, success = None,
                      fetched_url = None\<rparr>, shop_db)"
proof -
  let ?s = "\<lparr>sess_username = ''alice'', sess_user_id = 1\<rparr>"
  let ?form = "[''artwork_url'' \<mapsto> ''http://example.com/moved'']"
  let ?resp = "\<lparr>status_code = 302, location = Some ''http://example.com/art.json'',
              url = ''http://example.com/moved'', resp_text = []\<rparr>"
  have u: "user_exists shop_db (sess_username ?s)"
    by (simp add: user_exists_def shop_db_def alice_def fetchone_def)
  have f: "py_strip (form_get ?form ''artwork_url'' []) = ''http://example.com/moved''"
    by (simp add: form_get_def py_strip_def py_isspace_def)
  have ne: "''http://example.com/moved'' \<noteq> []" by simp
  have safe: "fst (is_safe_url test_env ''http://example.com/moved'')"
    by (simp add: safe_example)
  have safe2: "fst (is_safe_url test_env ''http://example.com/art.json'')"
    by (simp add: is_safe_url_def test_env_def urlparse_example py_lower_def py_lower_char_def
        test_ip_address_def test_getaddrinfo_def is_public_ip_def public_ip_def)
  have g: "requests_get test_env ''http://example.com/moved'' = Inr ?resp"
    by (simp add: test_env_def test_requests_get_def)
  have st: "300 \<le> status_code ?resp" "status_code ?resp < 400" by simp_all
  have err: "redirect_error test_env ''http://example.com/moved'' ?resp = RedirectsForbidden"
    using safe2 by (simp add: redirect_error_def) (simp add: test_env_def)
  have page: "import_artwork test_env shop_db ''2024-01-01 10:05:00'' (Some ?s) POST ?form
       = (ImportPage \<lparr>preview_content = None, error = Some RedirectsForbidden, success = None,
                      fetched_url = None\<rparr>, shop_db)"
    using import_artwork_redirect [OF u f ne safe g st] err by simp
  have other: "''http://example.com/art.json'' \<noteq> ''http://example.com/moved''" by simp
  from redirect_is_never_followed [OF u f ne safe g st,
      where target = "''http://example.com/art.json''" and answer = "Inl ''never asked''"
        and now = "''2024-01-01 10:05:00''"]
    other page u safe safe2 g
  show ?thesis by simp
qed

section \<open>The import route: the artwork it stores\<close>















lemma dumps_shapes: "test_dumps (JList [JInt 1, JInt 2]) = ''[1, 2]''"
  by code_simp






text \<open>
  The price that is a digit for \<^verbatim>\<open>str.isdigit()\<close> and not for \<^verbatim>\<open>int()\<close>: the superscript
  two passes the test, the conversion raises, and the handler of the inner \<^verbatim>\<open>try\<close>
  reports that the response is not JSON instead of storing the price 100.
\<close>

lemma loads_superscript:
  "test_loads superscript_body
     = Some (JDict [(''shapes'', JList [JInt 1, JInt 2]), (''price'', JStr [CHR 0xB2])])"
  by (simp add: superscript_body_def json_eval)

lemma import_superscript_price:
  "py_isdigit [CHR 0xB2] \<and> py_int [CHR 0xB2] = None
   \<and> import_json test_env shop_db ''2024-01-01 10:05:00'' 1
        \<lparr>status_code = 200, location = None, url = ''http://example.com/sup.json'',
         resp_text = superscript_body\<rparr>
      = ((None, Some NotJson), shop_db)"
  by (simp add: import_json_def test_env_def loads_superscript dict_has_def dict_get_def
        str_isdigit_def int_of_json_def py_isdigit_def py_isdigit_char_def py_eval Let_def)


section \<open>The import route: what is previewed and what is parsed\<close>

lemma import_artwork_fetched:
  assumes "user_exists d (sess_username s)"
    and "py_strip (form_get form ''artwork_url'' []) = u"
    and "u \<noteq> []"
    and "fst (is_safe_url e u)"
    and "requests_get e u = Inr resp"
    and "status_code resp = 200"
    and "fst (is_safe_url e (url resp))"
  shows "import_artwork e d now (Some s) POST form
         = (ImportPage \<lparr>preview_content = Some (take 10000 (resp_text resp)),
                        error = snd (fst (import_json e d now (sess_user_id s) resp)),
                        success = fst (fst (import_json e d now (sess_user_id s) resp)),
                        fetched_url = Some (url resp)\<rparr>,
            snd (import_json e d now (sess_user_id s) resp))"
  using assms by (simp add: import_artwork_def Let_def split: prod.splits)

text \<open>
  Claim C5, as the code has it. After a fetch that succeeds (status 200 and a safe final
  URL) the page shows the first 10000 characters of the body as the preview, and no more.
  What the import parses and stores is not that preview: \<^verbatim>\<open>resp.json()\<close> reads the body of
  the response as a whole, so the outcome of the import is the outcome of parsing the
  whole body; in particular a body that does not parse as a whole stores nothing.
\<close>

theorem preview_is_truncated:
  assumes "user_exists d (sess_username s)"
    and "py_strip (form_get form ''artwork_url'' []) = u"
    and "u \<noteq> []"
    and "fst (is_safe_url e u)"
    and "requests_get e u = Inr resp"
    and "status_code resp = 200"
    and "fst (is_safe_url e (url resp))"
  shows "\<exists>succ err d'.
           import_artwork e d now (Some s) POST form
             = (ImportPage \<lparr>preview_content = Some (take 10000 (resp_text resp)), error = err,
                            success = succ, fetched_url = Some (url resp)\<rparr>, d')
         \<and> length (take 10000 (resp_text resp)) \<le> 10000
         \<and> import_json e d now (sess_user_id s) resp = ((succ, err), d')
         \<and> (json_loads e (resp_text resp) = None \<longrightarrow>
              succ = None \<and> err = Some NotJson \<and> d' = d)"
proof -
  let ?r = "import_json e d now (sess_user_id s) resp"
  have page: "import_artwork e d now (Some s) POST form
         = (ImportPage \<lparr>preview_content = Some (take 10000 (resp_text resp)),
                        error = snd (fst ?r), success = fst (fst ?r),
                        fetched_url = Some (url resp)\<rparr>, snd ?r)"
    using assms by (rule import_artwork_fetched)
  have none: "?r = ((None, Some NotJson), d)" if "json_loads e (resp_text resp) = None"
    using that by (simp add: import_json_def)
  show ?thesis
    by (rule exI [of _ "fst (fst ?r)"], rule exI [of _ "snd (fst ?r)"], rule exI [of _ "snd ?r"])
       (use page none in auto)
qed

lemma skip_ws_spaces: "skip_ws (replicate n (CHR '' '') @ s) = skip_ws s"
  by (induction n) (simp_all add: skip_ws_def json_ws_def)

lemma parse_value_spaces:
  "parse_value (Suc m) (replicate n (CHR '' '') @ s) = parse_value (Suc m) s"
  by (simp add: skip_ws_spaces)

lemma take_padded: "take 10000 padded_body = replicate 10000 (CHR '' '')"
  by (simp add: padded_body_def)

lemma loads_spaces: "test_loads (replicate n (CHR '' '')) = None"
  using skip_ws_spaces [of n "[]"] by (simp add: test_loads_def) (simp add: skip_ws_def)

lemma loads_padded:
  "test_loads padded_body = Some (JDict [(''shapes'', JList [JInt 1, JInt 2])])"
proof -
  have a: "length padded_body = 10016"
    by (simp add: padded_body_def)
  have b: \<open>parse_value (Suc 10016) padded_body
           = parse_value (Suc 10016) ''{"shapes":[1,2]}''\<close>
    unfolding padded_body_def by (rule parse_value_spaces)
  have c: \<open>parse_value (Suc 10016) ''{"shapes":[1,2]}''
           = Some (JDict [(''shapes'', JList [JInt 1, JInt 2])], [])\<close>
    by (simp add: json_eval del: Suc_numeral)
  show ?thesis
    unfolding test_loads_def a b c by (simp add: skip_ws_def)
qed

lemma safe_art: "fst (is_safe_url test_env ''http://example.com/art.json'')"
  by (simp add: is_safe_url_def test_env_def urlparse_example py_lower_def py_lower_char_def
        test_ip_address_def test_getaddrinfo_def is_public_ip_def public_ip_def)

lemma urlparse_padded:
  "test_urlparse ''http://example.com/padded.json'' = Some (''http'', Some ''example.com'')"
  by (simp add: test_urlparse_def py_lower_def py_lower_char_def)

lemma safe_padded: "fst (is_safe_url test_env ''http://example.com/padded.json'')"
  by (simp add: is_safe_url_def test_env_def urlparse_padded py_lower_def py_lower_char_def
        test_ip_address_def test_getaddrinfo_def is_public_ip_def public_ip_def)

theorem preview_is_truncated_witness:
  "user_exists shop_db (sess_username \<lparr>sess_username = ''alice'', sess_user_id = 1\<rparr>)
   \<and> fst (is_safe_url test_env ''http://example.com/art.json'')
   \<and> requests_get test_env ''http://example.com/art.json''
       = Inr \<lparr>status_code = 200, location = None, url = ''http://example.com/art.json'',
              resp_text = art_body\<rparr>
   \<and> (\<exists>succ err d'.
         import_artwork test_env shop_db ''2024-01-01 10:05:00''
           (Some \<lparr>sess_username = ''alice'', sess_user_id = 1\<rparr>) POST
           [''artwork_url'' \<mapsto> ''http://example.com/art.json'']
         = (ImportPage \<lparr>preview_content = Some art_body, error = err, success = succ,
                        fetched_url = Some ''http://example.com/art.json''\<rparr>, d')
       \<and> length art_body \<le> 10000)"
proof -
  let ?s = "\<lparr>sess_username = ''alice'', sess_user_id = 1\<rparr>"
  let ?u = "''http://example.com/art.json''"
  let ?form = "[''artwork_url'' \<mapsto> ?u]"
  let ?resp = "\<lparr>status_code = 200, location = None, url = ?u, resp_text = art_body\<rparr>"
  have u: "user_exists shop_db (sess_username ?s)"
    by (simp add: user_exists_def shop_db_def alice_def fetchone_def)
  have f: "py_strip (form_get ?form ''artwork_url'' []) = ?u"
    by (simp add: form_get_def py_strip_def py_isspace_def)
  have ne: "?u \<noteq> []" by simp
  have g: "requests_get test_env ?u = Inr ?resp"
    by (simp add: test_env_def test_requests_get_def)
  have st: "status_code ?resp = 200" by simp
  have safe2: "fst (is_safe_url test_env (url ?resp))" by (simp add: safe_art)
  have short: "take 10000 (resp_text ?resp) = art_body"
    by (simp add: art_body_def)
  from preview_is_truncated [OF u f ne safe_art g st safe2, of "''2024-01-01 10:05:00''"]
  obtain succ err d' where
    "import_artwork test_env shop_db ''2024-01-01 10:05:00'' (Some ?s) POST ?form
       = (ImportPage \<lparr>preview_content = Some (take 10000 (resp_text ?resp)), error = err,
                      success = succ, fetched_url = Some (url ?resp)\<rparr>, d')"
    and "length (take 10000 (resp_text ?resp)) \<le> 10000"
    by auto
  then have "\<exists>succ err d'.
         import_artwork test_env shop_db ''2024-01-01 10:05:00'' (Some ?s) POST ?form
         = (ImportPage \<lparr>preview_content = Some art_body, error = err, success = succ,
                        fetched_url = Some ?u\<rparr>, d')
       \<and> length art_body \<le> 10000"
    unfolding short by simp
  with u safe_art g show ?thesis by simp
qed

theorem import_parses_whole_body_counterexample:
  "requests_get test_env ''http://example.com/padded.json''
     = Inr \<lparr>status_code = 200, location = None, url = ''http://example.com/padded.json'',
            resp_text = padded_body\<rparr>
   \<and> length padded_body = 10016
   \<and> take 10000 padded_body = replicate 10000 (CHR '' '')
   \<and> json_loads test_env (take 10000 padded_body) = None
   \<and> import_artwork test_env shop_db ''2024-01-01 10:05:00''
        (Some \<lparr>sess_username = ''alice'', sess_user_id = 1\<rparr>) POST
        [''artwork_url'' \<mapsto> ''http://example.com/padded.json'']
      = (ImportPage \<lparr>preview_content = Some (replicate 10000 (CHR '' '')), error = None,
                     success = Some 2,
                     fetched_url = Some ''http://example.com/padded.json''\<rparr>,
         shop_db\<lparr>artworks := [painting,
                    \<lparr>aid = 2, title = DEFAULT_IMPORT_TITLE, data = ''[1, 2]'', price = 100,
                     owner_id = 1, is_private = 0, signature = ''imported'',
                     created_at = ''2024-01-01 10:05:00''\<rparr>],
                  artworks_seq := 2\<rparr>)"
proof -
  let ?s = "\<lparr>sess_username = ''alice'', sess_user_id = 1\<rparr>"
  let ?u = "''http://example.com/padded.json''"
  let ?form = "[''artwork_url'' \<mapsto> ?u]"
  let ?resp = "\<lparr>status_code = 200, location = None, url = ?u, resp_text = padded_body\<rparr>"
  let ?kvs = "[(''shapes'', JList [JInt 1, JInt 2])]"
  have u: "user_exists shop_db (sess_username ?s)"
    by (simp add: user_exists_def shop_db_def alice_def fetchone_def)
  have f: "py_strip (form_get ?form ''artwork_url'' []) = ?u"
    by (simp add: form_get_def py_strip_def py_isspace_def)
  have ne: "?u \<noteq> []" by simp
  have g: "requests_get test_env ?u = Inr ?resp"
    by (simp add: test_env_def test_requests_get_def)
  have st: "status_code ?resp = 200" by simp
  have safe2: "fst (is_safe_url test_env (url ?resp))" by (simp add: safe_padded)
  have len: "length padded_body = 10016" by (simp add: padded_body_def)
  have cut: "take 10000 (resp_text ?resp) = replicate 10000 (CHR '' '')"
    by (simp add: take_padded)
  have blank: "json_loads test_env (take 10000 padded_body) = None"
    unfolding take_padded by (simp add: test_env_def loads_spaces)
  have loads': "json_loads test_env padded_body = Some (JDict ?kvs)"
    by (simp add: test_env_def loads_padded)
  have dumps: "json_dumps test_env (JList [JInt 1, JInt 2]) = ''[1, 2]''"
    by (simp add: test_env_def dumps_shapes del: test_dumps.simps)
  have run: "import_json test_env shop_db ''2024-01-01 10:05:00'' (sess_user_id ?s) ?resp
      = ((Some 2, None),
         shop_db\<lparr>artworks := [painting,
                    \<lparr>aid = 2, title = DEFAULT_IMPORT_TITLE, data = ''[1, 2]'', price = 100,
                     owner_id = 1, is_private = 0, signature = ''imported'',
                     created_at = ''2024-01-01 10:05:00''\<rparr>],
                  artworks_seq := 2\<rparr>)"
    by (simp add: import_json_def loads' dumps dict_has_def dict_get_def str_isdigit_def
          int_of_json_def create_artwork_record_def bind_param_def
          text_column_def sqlite_int_ok_def shop_db_def Let_def)
  have page: "import_artwork test_env shop_db ''2024-01-01 10:05:00'' (Some ?s) POST ?form
      = (ImportPage \<lparr>preview_content = Some (replicate 10000 (CHR '' '')), error = None,
                     success = Some 2, fetched_url = Some ?u\<rparr>,
         shop_db\<lparr>artworks := [painting,
                    \<lparr>aid = 2, title = DEFAULT_IMPORT_TITLE, data = ''[1, 2]'', price = 100,
                     owner_id = 1, is_private = 0, signature = ''imported'',
                     created_at = ''2024-01-01 10:05:00''\<rparr>],
                  artworks_seq := 2\<rparr>)"
    unfolding import_artwork_fetched [OF u f ne safe_padded g st safe2] run cut by simp
  from g len take_padded blank page show ?thesis by simp
qed

end
